theory Spec2Isabelle
  imports Main "HOL-Library.AList"
begin

section \<open>Values, errors and the serialization codec\<close>

text \<open>
  The module \<^verbatim>\<open>utils.py\<close> keeps a queue (\<^verbatim>\<open>RedisQueue\<close>) and a dictionary
  (\<^verbatim>\<open>RedisDict\<close>) in a key-value server. Both hand every value to \<^verbatim>\<open>pickle\<close>
  and keep the bytes it returns. A payload is a byte string; \<open>char\<close> is the byte.
\<close>

type_synonym payload = "char list"

text \<open>
  The exceptions a call can end with. The first five are Python's: \<open>TypeError\<close> and
  \<open>AttributeError\<close> come from the interpreter, \<open>DataError\<close> from the client library
  when a key is \<^verbatim>\<open>None\<close>, the two pickling errors from the codec. The last three are
  the names the specification uses; the source defines no exception class, and no
  function below produces them.
\<close>

datatype error =
    TypeError
  | AttributeError
  | DataError
  | PicklingError
  | UnpicklingError
  | QueueEmptyError
  | QueueTimeoutError
  | NotConfiguredError

text \<open>
  \<^verbatim>\<open>pickle.dumps\<close> and \<^verbatim>\<open>pickle.loads\<close> belong to the standard library and are
  taken as a parameter: a pair of functions that either return or raise.
\<close>

record 'v pickle =
  dumps :: "'v \<Rightarrow> error + payload"
  loads :: "payload \<Rightarrow> error + 'v"

text \<open>
  \<^verbatim>\<open>pickle.loads(element)\<close> where \<^verbatim>\<open>element\<close> may be \<^verbatim>\<open>None\<close>: the library
  asks for a bytes-like object and raises \<^verbatim>\<open>TypeError\<close> on \<^verbatim>\<open>None\<close>.
\<close>

definition pickle_loads :: "'v pickle \<Rightarrow> payload option \<Rightarrow> error + 'v" where
  "pickle_loads c element = (case element of None \<Rightarrow> Inl TypeError | Some b \<Rightarrow> loads c b)"

section \<open>The key-value server\<close>

text \<open>
  The server holds, under each key, a list of payloads and a hash from field names to
  payloads. The head of a list is its left end, the last element its right end (the
  tail). A key that was never written holds the empty list and the empty hash. The hash
  is an association list with distinct fields, in the order the fields were first set.
  All handles of the model are connected to this one server.
\<close>

record store =
  lists :: "string \<Rightarrow> payload list"
  hashes :: "string \<Rightarrow> (string \<times> payload) list"

definition empty_store :: store where
  "empty_store = \<lparr>lists = (\<lambda>_. []), hashes = (\<lambda>_. [])\<rparr>"

text \<open>
  Modelled from the spec: the client of the key-value server (\<^verbatim>\<open>redis.Redis\<close>, a
  third-party library). \<open>lpush\<close> is \<open>pushLeft\<close>: it inserts the payload at the head of
  the list stored at the key and returns the new length.
\<close>

definition lpush :: "string \<Rightarrow> payload \<Rightarrow> store \<Rightarrow> nat \<times> store" where
  "lpush k v s =
     (Suc (length (lists s k)), s\<lparr>lists := (lists s)(k := v # lists s k)\<rparr>)"

text \<open>
  Modelled from the spec: \<open>rpop\<close> is \<open>popRight\<close> of the server's client: it removes
  and returns the tail element, or returns \<^verbatim>\<open>None\<close> when the list is empty.
\<close>

definition rpop :: "string \<Rightarrow> store \<Rightarrow> payload option \<times> store" where
  "rpop k s =
     (case lists s k of
        [] \<Rightarrow> (None, s)
      | x # xs \<Rightarrow> (Some (last (x # xs)), s\<lparr>lists := (lists s)(k := butlast (x # xs))\<rparr>))"

text \<open>
  Modelled from the spec: \<open>brpop\<close> is \<open>popRightBlocking\<close> of the server's client. On a
  non-empty list it returns the pair of the key and the tail element at once. On an empty
  list it waits; in this sequential model nothing arrives during the wait, so with a
  timeout it returns \<^verbatim>\<open>None\<close> when the timeout expires, and with no timeout it
  never returns, which is the result \<open>None\<close> of the outer option. The client reads a
  timeout of \<open>0\<close> as no timeout.
\<close>

definition brpop ::
  "string \<Rightarrow> nat option \<Rightarrow> store \<Rightarrow> ((string \<times> payload) option \<times> store) option" where
  "brpop k timeout s =
     (case lists s k of
        [] \<Rightarrow> (if timeout = None \<or> timeout = Some 0 then None else Some (None, s))
      | x # xs \<Rightarrow>
          Some (Some (k, last (x # xs)), s\<lparr>lists := (lists s)(k := butlast (x # xs))\<rparr>))"

text \<open>Modelled from the spec: \<open>llen\<close> is \<open>length\<close> of the server's client.\<close>

definition llen :: "string \<Rightarrow> store \<Rightarrow> nat" where
  "llen k s = length (lists s k)"

text \<open>
  Modelled from the spec: \<open>lindex\<close> of the server's client reads one element without
  removing it; a negative index counts from the tail, so that index \<open>-1\<close> is
  \<open>peekTail\<close>. An index outside the list gives \<^verbatim>\<open>None\<close>.
\<close>

definition lindex :: "string \<Rightarrow> int \<Rightarrow> store \<Rightarrow> payload option" where
  "lindex k i s =
     (let xs = lists s k; n = int (length xs); j = (if i < 0 then n + i else i)
      in if 0 \<le> j \<and> j < n then Some (xs ! nat j) else None)"

text \<open>
  Modelled from the spec: \<open>hset\<close>, \<open>hget\<close>, \<open>hexists\<close> and \<open>hgetall\<close> are
  \<open>hashSet\<close>, \<open>hashGet\<close>, \<open>hashExists\<close> and \<open>hashGetAll\<close> of the server's client.
\<close>

definition hset :: "string \<Rightarrow> string \<Rightarrow> payload \<Rightarrow> store \<Rightarrow> store" where
  "hset k field v s = s\<lparr>hashes := (hashes s)(k := AList.update field v (hashes s k))\<rparr>"

definition hget :: "string \<Rightarrow> string \<Rightarrow> store \<Rightarrow> payload option" where
  "hget k field s = map_of (hashes s k) field"

definition hexists :: "string \<Rightarrow> string \<Rightarrow> store \<Rightarrow> bool" where
  "hexists k field s = (map_of (hashes s k) field \<noteq> None)"

definition hgetall :: "string \<Rightarrow> store \<Rightarrow> (string \<times> payload) list" where
  "hgetall k s = hashes s k"

section \<open>RedisQueue\<close>

text \<open>
  The parameters of a connection. \<^verbatim>\<open>redis.Redis(...)\<close> only records them; the
  connection is opened by the first command.
\<close>

record connection =
  host :: string
  password :: string
  port :: nat

text \<open>
  \<^verbatim>\<open>RedisQueue.__init__(name, **redis_kwargs)\<close> keeps the key and the connection.
\<close>

record RedisQueue =
  key :: string
  r :: connection

definition RedisQueue_init :: "string \<Rightarrow> connection \<Rightarrow> RedisQueue" where
  "RedisQueue_init name redis_kwargs = \<lparr>key = name, r = redis_kwargs\<rparr>"

definition size_queue :: "RedisQueue \<Rightarrow> store \<Rightarrow> nat" where
  "size_queue q s = llen (key q) s"

definition qsize :: "RedisQueue \<Rightarrow> store \<Rightarrow> nat" where
  "qsize q s = size_queue q s"

definition is_empty :: "RedisQueue \<Rightarrow> store \<Rightarrow> bool" where
  "is_empty q s = (size_queue q s = 0)"

text \<open>
  \<^verbatim>\<open>put\<close>: \<^verbatim>\<open>v = pickle.dumps(element); return self.r.lpush(self.key, v)\<close>.
\<close>

definition put :: "'v pickle \<Rightarrow> RedisQueue \<Rightarrow> 'v \<Rightarrow> store \<Rightarrow> (error + nat) \<times> store" where
  "put c q element s =
     (case dumps c element of
        Inl e \<Rightarrow> (Inl e, s)
      | Inr v \<Rightarrow> (case lpush (key q) v s of (n, s') \<Rightarrow> (Inr n, s')))"

text \<open>
  \<^verbatim>\<open>get(is_blocking=False, timeout=None)\<close>. The blocking branch subscripts the
  result of \<open>brpop\<close> with \<^verbatim>\<open>[1]\<close>, which raises \<^verbatim>\<open>TypeError\<close> on \<^verbatim>\<open>None\<close>; the
  other branch passes the result of \<open>rpop\<close> to \<^verbatim>\<open>pickle.loads\<close> as it is. The
  result \<open>None\<close> is a call that never returns.
\<close>

definition get ::
  "'v pickle \<Rightarrow> RedisQueue \<Rightarrow> bool \<Rightarrow> nat option \<Rightarrow> store \<Rightarrow> ((error + 'v) \<times> store) option" where
  "get c q is_blocking timeout s =
     (if is_blocking then
        (case brpop (key q) timeout s of
           None \<Rightarrow> None
         | Some (None, s') \<Rightarrow> Some (Inl TypeError, s')
         | Some (Some (k, element), s') \<Rightarrow> Some (pickle_loads c (Some element), s'))
      else
        (case rpop (key q) s of (element, s') \<Rightarrow> Some (pickle_loads c element, s')))"

text \<open>
  \<^verbatim>\<open>get_without_pop\<close> returns \<^verbatim>\<open>None\<close> on an empty queue and otherwise what
  \<^verbatim>\<open>lindex(self.key, -1)\<close> returns: the stored payload, not decoded.
\<close>

definition get_without_pop :: "RedisQueue \<Rightarrow> store \<Rightarrow> payload option \<times> store" where
  "get_without_pop q s = (if is_empty q s then (None, s) else (lindex (key q) (- 1) s, s))"

section \<open>RedisDict\<close>

text \<open>
  An instance of \<^verbatim>\<open>RedisDict\<close>. \<^verbatim>\<open>__init__\<close> sets \<^verbatim>\<open>exp_key\<close> to \<^verbatim>\<open>None\<close> and
  does not create the attribute \<^verbatim>\<open>r\<close>: it exists only after \<^verbatim>\<open>set_db\<close>, so the
  field \<open>r\<close> is \<open>None\<close> while the attribute is missing.
\<close>

record RedisDict =
  exp_key :: "string option"
  r :: "connection option"

definition RedisDict_init :: RedisDict where
  "RedisDict_init = \<lparr>exp_key = None, r = None\<rparr>"

definition is_set :: "RedisDict \<Rightarrow> bool" where
  "is_set d = (exp_key d \<noteq> None)"

text \<open>
  \<^verbatim>\<open>set_db(exp_key, host='localhost', password='')\<close>; the port is always 6379.
\<close>

definition set_db :: "string \<Rightarrow> string \<Rightarrow> string \<Rightarrow> RedisDict \<Rightarrow> RedisDict" where
  "set_db k h pw d =
     d\<lparr>exp_key := Some k, r := Some \<lparr>host = h, password = pw, port = 6379\<rparr>\<rparr>"

text \<open>
  The methods run in a process that has the server and a standard output, a list of
  printed lines.
\<close>

record world =
  server :: store
  stdout :: "string list"

text \<open>
  The loop of \<^verbatim>\<open>get_dict\<close> over the items of \<open>hgetall\<close>:
  \<^verbatim>\<open>res_dict[key_b.decode()] = pickle.loads(value_b)\<close>. Field names are strings on
  both sides, so \<^verbatim>\<open>decode\<close> is the identity here.
\<close>

fun get_dict_loop ::
  "'v pickle \<Rightarrow> (string \<times> payload) list \<Rightarrow> (string \<rightharpoonup> 'v) \<Rightarrow> error + (string \<rightharpoonup> 'v)" where
  "get_dict_loop c [] res_dict = Inr res_dict"
| "get_dict_loop c ((key_b, value_b) # items) res_dict =
     (case pickle_loads c (Some value_b) of
        Inl e \<Rightarrow> Inl e
      | Inr v \<Rightarrow> get_dict_loop c items (res_dict(key_b \<mapsto> v)))"

text \<open>
  Every method reaches the server through \<^verbatim>\<open>self.r\<close>: while the attribute is
  missing, evaluating it raises \<^verbatim>\<open>AttributeError\<close>. A key that is \<^verbatim>\<open>None\<close> is
  refused by the client with \<^verbatim>\<open>DataError\<close>.
\<close>

definition get_dict ::
  "'v pickle \<Rightarrow> RedisDict \<Rightarrow> world \<Rightarrow> (error + (string \<rightharpoonup> 'v)) \<times> world" where
  "get_dict c d w =
     (case r d of
        None \<Rightarrow> (Inl AttributeError, w)
      | Some _ \<Rightarrow>
          (case exp_key d of
             None \<Rightarrow> (Inl DataError, w)
           | Some k \<Rightarrow> (get_dict_loop c (hgetall k (server w)) Map.empty, w)))"

text \<open>
  \<^verbatim>\<open>set(field, value)\<close>: \<^verbatim>\<open>pickle.dumps(value)\<close> runs before \<^verbatim>\<open>self.r\<close> is
  evaluated.
\<close>

definition RedisDict_set ::
  "'v pickle \<Rightarrow> RedisDict \<Rightarrow> string \<Rightarrow> 'v \<Rightarrow> world \<Rightarrow> (error + unit) \<times> world" where
  "RedisDict_set c d field v w =
     (case dumps c v of
        Inl e \<Rightarrow> (Inl e, w)
      | Inr pickled_value \<Rightarrow>
          (case r d of
             None \<Rightarrow> (Inl AttributeError, w)
           | Some _ \<Rightarrow>
               (case exp_key d of
                  None \<Rightarrow> (Inl DataError, w)
                | Some k \<Rightarrow> (Inr (), w\<lparr>server := hset k field pickled_value (server w)\<rparr>))))"

text \<open>
  \<^verbatim>\<open>get(field)\<close> returns the unpickled value of a field that exists; otherwise it
  prints a line and returns \<^verbatim>\<open>None\<close>, the result \<open>Inr None\<close>.
\<close>

definition RedisDict_get ::
  "'v pickle \<Rightarrow> RedisDict \<Rightarrow> string \<Rightarrow> world \<Rightarrow> (error + 'v option) \<times> world" where
  "RedisDict_get c d field w =
     (case r d of
        None \<Rightarrow> (Inl AttributeError, w)
      | Some _ \<Rightarrow>
          (case exp_key d of
             None \<Rightarrow> (Inl DataError, w)
           | Some k \<Rightarrow>
               if hexists k field (server w) then
                 (case pickle_loads c (hget k field (server w)) of
                    Inl e \<Rightarrow> (Inl e, w)
                  | Inr unpickled_value \<Rightarrow> (Inr (Some unpickled_value), w))
               else
                 (Inr None,
                  w\<lparr>stdout := stdout w @
                     [field @ '' does not exist in Redis with the experiment '' @ k]\<rparr>)))"

section \<open>The singleton decorator\<close>

text \<open>
  Objects live in a heap, a list whose indices are the references. \<^verbatim>\<open>singleton(cls)\<close>
  creates the dictionary \<^verbatim>\<open>instances\<close>, defines \<^verbatim>\<open>get_instance\<close>, calls it once
  and returns the instance, which the decorated name is then bound to. \<open>cls\<close> is
  the class and \<open>init\<close> the object that \<^verbatim>\<open>cls()\<close> constructs.
\<close>

type_synonym ref = nat

definition get_instance ::
  "'c \<Rightarrow> 'o \<Rightarrow> ('c \<rightharpoonup> ref) \<Rightarrow> 'o list \<Rightarrow> ref \<times> ('c \<rightharpoonup> ref) \<times> 'o list" where
  "get_instance cls init instances h =
     (case instances cls of
        None \<Rightarrow> (length h, instances(cls \<mapsto> length h), h @ [init])
      | Some a \<Rightarrow> (a, instances, h))"

definition singleton :: "'c \<Rightarrow> 'o \<Rightarrow> 'o list \<Rightarrow> ref \<times> 'o list" where
  "singleton cls init h =
     (case get_instance cls init Map.empty h of (a, instances, h') \<Rightarrow> (a, h'))"

text \<open>
  The module after its import: the heap of \<^verbatim>\<open>RedisDict\<close> objects and the reference
  that the module-level name \<^verbatim>\<open>RedisDict\<close> is bound to by
  \<^verbatim>\<open>@singleton class RedisDict\<close>. A caller acquires the shared map by reading that name.
\<close>

record module =
  heap :: "RedisDict list"
  RedisDict_name :: ref

definition import_utils :: module where
  "import_utils =
     (case singleton ''RedisDict'' RedisDict_init [] of
        (a, h) \<Rightarrow> \<lparr>heap = h, RedisDict_name = a\<rparr>)"

text \<open>
  Reading and changing the object behind a reference; a reference outside the heap
  has no object, and changing it changes nothing.
\<close>

definition deref :: "module \<Rightarrow> ref \<Rightarrow> RedisDict option" where
  "deref m a = (if a < length (heap m) then Some (heap m ! a) else None)"

definition mutate :: "ref \<Rightarrow> (RedisDict \<Rightarrow> RedisDict) \<Rightarrow> module \<Rightarrow> module" where
  "mutate a f m =
     (if a < length (heap m) then m\<lparr>heap := (heap m)[a := f (heap m ! a)]\<rparr> else m)"

section \<open>A concrete codec\<close>

text \<open>
  A small codec to run the definitions on: strings are encoded with a tag byte, an open
  handle cannot be encoded, and bytes without the tag cannot be decoded.
\<close>

datatype val = Str string | Handle nat

fun sample_dumps :: "val \<Rightarrow> error + payload" where
  "sample_dumps (Str x) = Inr (CHR ''S'' # x)"
| "sample_dumps (Handle n) = Inl PicklingError"

fun sample_loads :: "payload \<Rightarrow> error + val" where
  "sample_loads [] = Inl UnpicklingError"
| "sample_loads (t # x) = (if t = CHR ''S'' then Inr (Str x) else Inl UnpicklingError)"

definition sample_pickle :: "val pickle" where
  "sample_pickle = \<lparr>dumps = sample_dumps, loads = sample_loads\<rparr>"

definition local_connection :: connection where
  "local_connection = \<lparr>host = ''localhost'', password = '''', port = 6379\<rparr>"

definition empty_world :: world where
  "empty_world = \<lparr>server = empty_store, stdout = []\<rparr>"

text \<open>A world whose hash \<open>exp\<close> has the one field \<open>lr\<close>.\<close>

definition sample_world :: world where
  "sample_world = \<lparr>server = hset ''exp'' ''lr'' ''S0.1'' empty_store, stdout = []\<rparr>"

section \<open>What the queue operations do to the list\<close>

lemma put_encoded:
  "dumps c v = Inr b \<Longrightarrow>
   put c q v s =
     (Inr (Suc (length (lists s (key q)))), s\<lparr>lists := (lists s)(key q := b # lists s (key q))\<rparr>)"
  by (simp add: put_def lpush_def)

lemma put_not_encoded: "dumps c v = Inl e \<Longrightarrow> put c q v s = (Inl e, s)"
  by (simp add: put_def)

text \<open>
  On a non-empty list both branches of \<open>get\<close> take the tail element and decode it;
  the flag and the timeout make no difference.
\<close>

lemma get_tail:
  "lists s (key q) = xs @ [b] \<Longrightarrow>
   get c q is_blocking timeout s = Some (loads c b, s\<lparr>lists := (lists s)(key q := xs)\<rparr>)"
  by (cases xs) (simp_all add: get_def brpop_def rpop_def pickle_loads_def)

text \<open>
  The queue hands back the payload it was given: what \<open>get\<close> returns for a value that
  was put on an empty queue is whatever the codec decodes from its own encoding.
\<close>

lemma put_then_get_decodes:
  assumes "lists s (key q) = []" and "dumps c v = Inr b"
  shows "get c q is_blocking timeout (snd (put c q v s)) =
           Some (loads c b, s\<lparr>lists := (lists s)(key q := [])\<rparr>)"
proof -
  let ?s1 = "s\<lparr>lists := (lists s)(key q := [b])\<rparr>"
  have "snd (put c q v s) = ?s1"
    using put_encoded [OF assms(2), of q s] assms(1) by simp
  moreover have "get c q is_blocking timeout ?s1 =
      Some (loads c b, ?s1\<lparr>lists := (lists ?s1)(key q := [])\<rparr>)"
    by (rule get_tail) simp
  ultimately show ?thesis by simp
qed

lemma get_nothing_nonblocking:
  "lists s (key q) = [] \<Longrightarrow> get c q False timeout s = Some (Inl TypeError, s)"
  by (simp add: get_def rpop_def pickle_loads_def)

lemma get_nothing_timeout:
  "lists s (key q) = [] \<Longrightarrow> 0 < T \<Longrightarrow> get c q True (Some T) s = Some (Inl TypeError, s)"
  by (simp add: get_def brpop_def)

text \<open>With no timeout a blocking \<open>get\<close> on an empty queue never returns.\<close>

lemma get_nothing_forever:
  "lists s (key q) = [] \<Longrightarrow> timeout = None \<or> timeout = Some 0 \<Longrightarrow>
   get c q True timeout s = None"
  by (auto simp add: get_def brpop_def)

lemma is_empty_lists: "is_empty q s = (lists s (key q) = [])"
  by (simp add: is_empty_def size_queue_def llen_def)

lemma qsize_lists: "qsize q s = length (lists s (key q))"
  by (simp add: qsize_def size_queue_def llen_def)

lemma lindex_tail:
  "lindex k (- 1) s = (if lists s k = [] then None else Some (last (lists s k)))"
  by (auto simp add: lindex_def Let_def last_conv_nth nat_diff_distrib')

section \<open>What the dictionary operations do to the hash\<close>

lemma set_db_fields:
  "exp_key (set_db k h pw d) = Some k"
  "RedisDict.r (set_db k h pw d) = Some \<lparr>host = h, password = pw, port = 6379\<rparr>"
  by (simp_all add: set_db_def)

lemma is_set_set_db: "is_set (set_db k h pw d)"
  by (simp add: is_set_def set_db_fields)

lemma map_of_hset: "map_of (hashes (hset k field b s) k) field = Some b"
  by (simp add: hset_def update_conv')

lemma RedisDict_set_configured:
  "dumps c v = Inr b \<Longrightarrow>
   RedisDict_set c (set_db k h pw d) field v w =
     (Inr (), w\<lparr>server := hset k field b (server w)\<rparr>)"
  by (simp add: RedisDict_set_def set_db_fields)

lemma RedisDict_get_configured:
  "RedisDict_get c (set_db k h pw d) field w =
     (case map_of (hashes (server w) k) field of
        None \<Rightarrow>
          (Inr None,
           w\<lparr>stdout := stdout w @
              [field @ '' does not exist in Redis with the experiment '' @ k]\<rparr>)
      | Some b \<Rightarrow>
          (case loads c b of Inl e \<Rightarrow> (Inl e, w) | Inr v \<Rightarrow> (Inr (Some v), w)))"
  by (simp add: RedisDict_get_def set_db_fields hexists_def hget_def pickle_loads_def
      split: option.splits sum.splits)

section \<open>What the decorator creates\<close>

text \<open>
  Once \<open>get_instance\<close> has stored an instance, a further call returns the same
  reference and creates nothing.
\<close>

lemma get_instance_again:
  "get_instance cls init instances h = (a, instances', h') \<Longrightarrow>
   get_instance cls init' instances' h' = (a, instances', h')"
  by (auto simp add: get_instance_def split: option.splits)

lemma import_utils_eq: "import_utils = \<lparr>heap = [RedisDict_init], RedisDict_name = 0\<rparr>"
  by (simp add: import_utils_def singleton_def get_instance_def)

lemma mutate_keeps_name: "RedisDict_name (mutate a f m) = RedisDict_name m"
  by (simp add: mutate_def)

lemma mutate_keeps_length: "length (heap (mutate a f m)) = length (heap m)"
  by (simp add: mutate_def)

section \<open>The queue is first in, first out\<close>

text \<open>
  Claim C1. On a queue that is empty, three values \<open>v1\<close>, \<open>v2\<close>, \<open>v3\<close> are put in
  that order through any three handles \<open>p1\<close>, \<open>p2\<close>, \<open>p3\<close> with the same key; the
  three calls of \<open>get\<close> that follow, through any handles \<open>g1\<close>, \<open>g2\<close>, \<open>g3\<close> with
  that key and with any blocking flag and timeout, return \<open>v1\<close>, \<open>v2\<close>, \<open>v3\<close> in that
  order and leave the queue empty. The codec is assumed to encode the three values and
  to decode what it encoded.
\<close>

theorem fifo_put_get:
  assumes empty: "lists s k = []"
    and puts: "key p1 = k" "key p2 = k" "key p3 = k"
    and gets: "key g1 = k" "key g2 = k" "key g3 = k"
    and enc: "dumps c v1 = Inr b1" "dumps c v2 = Inr b2" "dumps c v3 = Inr b3"
    and dec: "loads c b1 = Inr v1" "loads c b2 = Inr v2" "loads c b3 = Inr v3"
  shows "\<exists>n1 n2 n3 s1 s2 s3 s4 s5 s6.
           put c p1 v1 s = (Inr n1, s1) \<and>
           put c p2 v2 s1 = (Inr n2, s2) \<and>
           put c p3 v3 s2 = (Inr n3, s3) \<and>
           get c g1 f1 t1 s3 = Some (Inr v1, s4) \<and>
           get c g2 f2 t2 s4 = Some (Inr v2, s5) \<and>
           get c g3 f3 t3 s5 = Some (Inr v3, s6) \<and>
           lists s6 k = []"
proof -
  define s1 where "s1 = s\<lparr>lists := (lists s)(k := [b1])\<rparr>"
  define s2 where "s2 = s1\<lparr>lists := (lists s1)(k := [b2, b1])\<rparr>"
  define s3 where "s3 = s2\<lparr>lists := (lists s2)(k := [b3, b2, b1])\<rparr>"
  define s4 where "s4 = s3\<lparr>lists := (lists s3)(k := [b3, b2])\<rparr>"
  define s5 where "s5 = s4\<lparr>lists := (lists s4)(k := [b3])\<rparr>"
  define s6 where "s6 = s5\<lparr>lists := (lists s5)(k := [])\<rparr>"
  have l1: "lists s1 k = [b1]" and l2: "lists s2 k = [b2, b1]"
    and l3: "lists s3 k = [b3, b2] @ [b1]" and l4: "lists s4 k = [b3] @ [b2]"
    and l5: "lists s5 k = [] @ [b3]" and l6: "lists s6 k = []"
    by (simp_all add: s1_def s2_def s3_def s4_def s5_def s6_def)
  have "put c p1 v1 s = (Inr 1, s1)"
    using put_encoded [OF enc(1), of p1 s] empty puts(1) by (simp add: s1_def)
  moreover have "put c p2 v2 s1 = (Inr 2, s2)"
    using put_encoded [OF enc(2), of p2 s1] l1 puts(2) by (simp add: s2_def)
  moreover have "put c p3 v3 s2 = (Inr 3, s3)"
    using put_encoded [OF enc(3), of p3 s2] l2 puts(3) by (simp add: s3_def)
  moreover have "get c g1 f1 t1 s3 = Some (Inr v1, s4)"
    using get_tail [of s3 g1 "[b3, b2]" b1 c f1 t1] l3 gets(1) dec(1) by (simp add: s4_def)
  moreover have "get c g2 f2 t2 s4 = Some (Inr v2, s5)"
    using get_tail [of s4 g2 "[b3]" b2 c f2 t2] l4 gets(2) dec(2) by (simp add: s5_def)
  moreover have "get c g3 f3 t3 s5 = Some (Inr v3, s6)"
    using get_tail [of s5 g3 "[]" b3 c f3 t3] l5 gets(3) dec(3) by (simp add: s6_def)
  ultimately show ?thesis using l6 by blast
qed

text \<open>
  The scenario of the queue \<open>jobs\<close>: three tasks put, then taken by a non-blocking
  call, a blocking call with a timeout and a blocking call without one.
\<close>

theorem fifo_put_get_witness:
  "lists empty_store ''jobs'' = [] \<and>
   key (RedisQueue_init ''jobs'' local_connection) = ''jobs'' \<and>
   dumps sample_pickle (Str ''t1'') = Inr ''St1'' \<and>
   dumps sample_pickle (Str ''t2'') = Inr ''St2'' \<and>
   dumps sample_pickle (Str ''t3'') = Inr ''St3'' \<and>
   loads sample_pickle ''St1'' = Inr (Str ''t1'') \<and>
   loads sample_pickle ''St2'' = Inr (Str ''t2'') \<and>
   loads sample_pickle ''St3'' = Inr (Str ''t3'') \<and>
   (\<exists>n1 n2 n3 s1 s2 s3 s4 s5 s6.
      put sample_pickle (RedisQueue_init ''jobs'' local_connection) (Str ''t1'') empty_store
        = (Inr n1, s1) \<and>
      put sample_pickle (RedisQueue_init ''jobs'' local_connection) (Str ''t2'') s1
        = (Inr n2, s2) \<and>
      put sample_pickle (RedisQueue_init ''jobs'' local_connection) (Str ''t3'') s2
        = (Inr n3, s3) \<and>
      get sample_pickle (RedisQueue_init ''jobs'' local_connection) False None s3
        = Some (Inr (Str ''t1''), s4) \<and>
      get sample_pickle (RedisQueue_init ''jobs'' local_connection) True (Some 5) s4
        = Some (Inr (Str ''t2''), s5) \<and>
      get sample_pickle (RedisQueue_init ''jobs'' local_connection) True None s5
        = Some (Inr (Str ''t3''), s6) \<and>
      lists s6 ''jobs'' = [])"
  using fifo_put_get [of empty_store "''jobs''"
      "RedisQueue_init ''jobs'' local_connection" "RedisQueue_init ''jobs'' local_connection"
      "RedisQueue_init ''jobs'' local_connection" "RedisQueue_init ''jobs'' local_connection"
      "RedisQueue_init ''jobs'' local_connection" "RedisQueue_init ''jobs'' local_connection"
      sample_pickle "Str ''t1''" "''St1''" "Str ''t2''" "''St2''" "Str ''t3''" "''St3''"
      False None True "Some 5" True None]
  by (simp add: empty_store_def RedisQueue_init_def sample_pickle_def)

section \<open>The empty queue\<close>

text \<open>
  Claim C3, as the code has it. On an empty queue a non-blocking \<open>get\<close> calls
  \<open>rpop\<close> once, which returns \<^verbatim>\<open>None\<close> and changes nothing, and then fails: the
  exception is the \<open>TypeError\<close> that \<^verbatim>\<open>pickle.loads\<close> raises on \<^verbatim>\<open>None\<close>. The
  source has no \<open>QueueEmptyError\<close>.
\<close>

theorem get_nonblocking_empty:
  assumes "is_empty q s"
  shows "rpop (key q) s = (None, s) \<and> get c q False timeout s = Some (Inl TypeError, s)"
  using assms by (simp add: is_empty_lists get_nothing_nonblocking rpop_def)

theorem get_nonblocking_empty_witness:
  "is_empty (RedisQueue_init ''jobs'' local_connection) empty_store \<and>
   rpop ''jobs'' empty_store = (None, empty_store) \<and>
   get sample_pickle (RedisQueue_init ''jobs'' local_connection) False None empty_store
     = Some (Inl TypeError, empty_store)"
  using get_nonblocking_empty
    [of "RedisQueue_init ''jobs'' local_connection" empty_store sample_pickle None]
  by (simp add: is_empty_lists empty_store_def RedisQueue_init_def)

text \<open>The exception of a non-blocking \<open>get\<close> on the empty queue \<open>jobs\<close>.\<close>

theorem get_nonblocking_empty_counterexample:
  "get sample_pickle (RedisQueue_init ''jobs'' local_connection) False None empty_store
     = Some (Inl TypeError, empty_store) \<and>
   get sample_pickle (RedisQueue_init ''jobs'' local_connection) False None empty_store
     \<noteq> Some (Inl QueueEmptyError, empty_store)"
  by (simp add: get_def rpop_def pickle_loads_def empty_store_def RedisQueue_init_def)

text \<open>
  Claim C4, as the code has it. On a queue that is empty and stays empty, a blocking
  \<open>get\<close> with a timeout \<open>T > 0\<close> gets \<^verbatim>\<open>None\<close> from \<open>brpop\<close> when the timeout
  expires, and then fails: the exception is the \<open>TypeError\<close> of the subscript
  \<^verbatim>\<open>element[1]\<close> on \<^verbatim>\<open>None\<close>. The queue is unchanged. The source has no
  \<open>QueueTimeoutError\<close>.
\<close>

theorem get_blocking_timeout:
  assumes "is_empty q s" and "0 < T"
  shows "brpop (key q) (Some T) s = Some (None, s) \<and>
         get c q True (Some T) s = Some (Inl TypeError, s)"
  using assms by (simp add: is_empty_lists get_nothing_timeout brpop_def)

theorem get_blocking_timeout_witness:
  "is_empty (RedisQueue_init ''jobs'' local_connection) empty_store \<and> (0::nat) < 5 \<and>
   brpop ''jobs'' (Some 5) empty_store = Some (None, empty_store) \<and>
   get sample_pickle (RedisQueue_init ''jobs'' local_connection) True (Some 5) empty_store
     = Some (Inl TypeError, empty_store)"
  using get_blocking_timeout
    [of "RedisQueue_init ''jobs'' local_connection" empty_store 5 sample_pickle]
  by (simp add: is_empty_lists empty_store_def RedisQueue_init_def)

text \<open>The exception of a blocking \<open>get\<close> with a timeout of 5 on the empty queue \<open>jobs\<close>.\<close>

theorem get_blocking_timeout_counterexample:
  "get sample_pickle (RedisQueue_init ''jobs'' local_connection) True (Some 5) empty_store
     = Some (Inl TypeError, empty_store) \<and>
   get sample_pickle (RedisQueue_init ''jobs'' local_connection) True (Some 5) empty_store
     \<noteq> Some (Inl QueueTimeoutError, empty_store)"
  by (simp add: get_def brpop_def empty_store_def RedisQueue_init_def)

section \<open>Reading the tail and the length\<close>

text \<open>
  \<open>get_without_pop\<close> returns \<^verbatim>\<open>None\<close> on an empty queue and the tail element
  of a non-empty one as the server stores it, a payload; the store after the call is
  the store before it.
\<close>

lemma get_without_pop_tail:
  "get_without_pop q s =
     ((if lists s (key q) = [] then None else Some (last (lists s (key q)))), s)"
  by (simp add: get_without_pop_def is_empty_lists lindex_tail)

text \<open>
  After \<open>put\<close> of a value on an empty queue, \<open>get_without_pop\<close> returns the bytes
  that \<^verbatim>\<open>pickle.dumps\<close> made of the value. It never calls \<^verbatim>\<open>pickle.loads\<close>, which
  \<open>get\<close> does.
\<close>

lemma get_without_pop_after_put:
  assumes "lists s (key q) = []" and "dumps c v = Inr b"
  shows "get_without_pop q (snd (put c q v s)) = (Some b, snd (put c q v s))"
  using put_encoded [OF assms(2), of q s] assms(1) by (simp add: get_without_pop_tail)

text \<open>
  Claim C7 on the queue \<open>jobs\<close>. The value \<open>Str ''t1''\<close> is put on the empty queue.
  \<open>get_without_pop\<close> leaves the store as it is, but what it returns is the payload
  \<open>''St1''\<close>, the encoding of the value, and not the value: \<open>get\<close> on the same store
  returns \<open>Str ''t1''\<close>. On the empty queue \<open>get_without_pop\<close> returns \<^verbatim>\<open>None\<close>.
\<close>

theorem get_without_pop_undecoded:
  "get_without_pop (RedisQueue_init ''jobs'' local_connection)
       (snd (put sample_pickle (RedisQueue_init ''jobs'' local_connection) (Str ''t1'')
          empty_store))
     = (Some ''St1'',
        snd (put sample_pickle (RedisQueue_init ''jobs'' local_connection) (Str ''t1'')
          empty_store)) \<and>
   dumps sample_pickle (Str ''t1'') = Inr ''St1'' \<and>
   map_option fst
       (get sample_pickle (RedisQueue_init ''jobs'' local_connection) False None
          (snd (put sample_pickle (RedisQueue_init ''jobs'' local_connection) (Str ''t1'')
             empty_store)))
     = Some (Inr (Str ''t1'')) \<and>
   get_without_pop (RedisQueue_init ''jobs'' local_connection) empty_store
     = (None, empty_store)"
  by (simp add: get_without_pop_def is_empty_def size_queue_def llen_def lindex_def put_def
      lpush_def get_def rpop_def pickle_loads_def sample_pickle_def RedisQueue_init_def
      empty_store_def)

text \<open>
  Claim C10. When the value is encoded, \<open>put\<close> returns the length that the queue has
  after the insertion, which is one more than before.
\<close>

theorem put_returns_length:
  assumes "dumps c v = Inr b"
  shows "\<exists>s'. put c q v s = (Inr (size_queue q s'), s') \<and>
              size_queue q s' = Suc (size_queue q s)"
  using put_encoded [OF assms, of q s] by (simp add: size_queue_def llen_def)

theorem put_returns_length_witness:
  "dumps sample_pickle (Str ''t1'') = Inr ''St1'' \<and>
   (\<exists>s'. put sample_pickle (RedisQueue_init ''jobs'' local_connection) (Str ''t1'') empty_store
            = (Inr (size_queue (RedisQueue_init ''jobs'' local_connection) s'), s') \<and>
          size_queue (RedisQueue_init ''jobs'' local_connection) s'
            = Suc (size_queue (RedisQueue_init ''jobs'' local_connection) empty_store))"
  using put_returns_length [of sample_pickle "Str ''t1''" "''St1''"
      "RedisQueue_init ''jobs'' local_connection" empty_store]
  by (simp add: sample_pickle_def)

section \<open>Encoding comes first\<close>

text \<open>
  Claim C8. When \<^verbatim>\<open>pickle.dumps\<close> fails on the value, \<open>put\<close> and the dictionary's
  \<open>set\<close> end with that exception and the store is as it was: nothing is written.
\<close>

theorem encode_failure_no_write:
  assumes "dumps c v = Inl e"
  shows "put c q v s = (Inl e, s) \<and> RedisDict_set c d field v w = (Inl e, w)"
  using assms by (simp add: put_def RedisDict_set_def)

theorem encode_failure_no_write_witness:
  "dumps sample_pickle (Handle 3) = Inl PicklingError \<and>
   put sample_pickle (RedisQueue_init ''jobs'' local_connection) (Handle 3) empty_store
     = (Inl PicklingError, empty_store) \<and>
   RedisDict_set sample_pickle (set_db ''exp'' ''localhost'' '''' RedisDict_init) ''lr''
       (Handle 3) empty_world
     = (Inl PicklingError, empty_world)"
  using encode_failure_no_write [of sample_pickle "Handle 3" PicklingError
      "RedisQueue_init ''jobs'' local_connection" empty_store
      "set_db ''exp'' ''localhost'' '''' RedisDict_init" "''lr''" empty_world]
  by (simp add: sample_pickle_def)

section \<open>The dictionary before and after \<open>set_db\<close>\<close>

text \<open>
  Claim C5, as the code has it. On the instance as \<^verbatim>\<open>__init__\<close> leaves it, every
  operation fails and the world is unchanged: \<open>get\<close> and \<open>get_dict\<close> with
  \<open>AttributeError\<close>, since the attribute \<^verbatim>\<open>r\<close> does not exist; \<open>set\<close> with the
  exception of \<^verbatim>\<open>pickle.dumps\<close> when the value cannot be encoded and with
  \<open>AttributeError\<close> otherwise. The source has no \<open>NotConfiguredError\<close>.
\<close>

theorem unconfigured_fails:
  "RedisDict_get c RedisDict_init field w = (Inl AttributeError, w) \<and>
   get_dict c RedisDict_init w = (Inl AttributeError, w) \<and>
   RedisDict_set c RedisDict_init field v w =
     (Inl (case dumps c v of Inl e \<Rightarrow> e | Inr b \<Rightarrow> AttributeError), w)"
  by (simp add: RedisDict_get_def get_dict_def RedisDict_set_def RedisDict_init_def
      split: sum.splits)

theorem unconfigured_fails_witness:
  "is_set RedisDict_init = False \<and>
   RedisDict_get sample_pickle RedisDict_init ''lr'' empty_world
     = (Inl AttributeError, empty_world) \<and>
   get_dict sample_pickle RedisDict_init empty_world = (Inl AttributeError, empty_world) \<and>
   RedisDict_set sample_pickle RedisDict_init ''lr'' (Str ''0.1'') empty_world
     = (Inl AttributeError, empty_world) \<and>
   RedisDict_set sample_pickle RedisDict_init ''lr'' (Handle 3) empty_world
     = (Inl PicklingError, empty_world)"
  using unconfigured_fails [of sample_pickle "''lr''" empty_world "Str ''0.1''"]
    unconfigured_fails [of sample_pickle "''lr''" empty_world "Handle 3"]
  by (simp add: sample_pickle_def is_set_def RedisDict_init_def)

text \<open>The exception of \<open>get\<close> on the instance before \<open>set_db\<close>.\<close>

theorem unconfigured_fails_counterexample:
  "RedisDict_get sample_pickle RedisDict_init ''lr'' empty_world
     = (Inl AttributeError, empty_world) \<and>
   fst (RedisDict_get sample_pickle RedisDict_init ''lr'' empty_world)
     \<noteq> Inl NotConfiguredError"
  by (simp add: RedisDict_get_def RedisDict_init_def)

text \<open>
  Claim C6. On an instance that has its key and its connection, \<open>get\<close> asks
  \<open>hexists\<close>. For a field that does not exist it returns \<^verbatim>\<open>None\<close> without an
  exception and prints one line that names the field and the key; for a field that
  exists with payload \<open>b\<close> it returns the value that \<open>b\<close> decodes to (or ends with the
  decoder's exception), and prints nothing.
\<close>

theorem get_field_configured:
  assumes "exp_key d = Some k" and "RedisDict.r d = Some conn"
  shows "(\<not> hexists k field (server w) \<longrightarrow>
            RedisDict_get c d field w =
              (Inr None,
               w\<lparr>stdout := stdout w @
                  [field @ '' does not exist in Redis with the experiment '' @ k]\<rparr>)) \<and>
         (hget k field (server w) = Some b \<longrightarrow>
            hexists k field (server w) \<and>
            RedisDict_get c d field w =
              (case loads c b of Inl e \<Rightarrow> (Inl e, w) | Inr v \<Rightarrow> (Inr (Some v), w)))"
  using assms
  by (simp add: RedisDict_get_def hexists_def hget_def pickle_loads_def split: sum.splits)

theorem get_field_configured_witness:
  "exp_key (set_db ''exp'' ''localhost'' '''' RedisDict_init) = Some ''exp'' \<and>
   RedisDict.r (set_db ''exp'' ''localhost'' '''' RedisDict_init) = Some local_connection \<and>
   \<not> hexists ''exp'' ''bs'' (server sample_world) \<and>
   RedisDict_get sample_pickle (set_db ''exp'' ''localhost'' '''' RedisDict_init) ''bs''
       sample_world =
     (Inr None,
      sample_world\<lparr>stdout := [''bs does not exist in Redis with the experiment exp'']\<rparr>) \<and>
   hget ''exp'' ''lr'' (server sample_world) = Some ''S0.1'' \<and>
   hexists ''exp'' ''lr'' (server sample_world) \<and>
   RedisDict_get sample_pickle (set_db ''exp'' ''localhost'' '''' RedisDict_init) ''lr''
       sample_world =
     (Inr (Some (Str ''0.1'')), sample_world)"
  using get_field_configured [where d = "set_db ''exp'' ''localhost'' '''' RedisDict_init"
      and k = "''exp''" and conn = local_connection and field = "''bs''" and w = sample_world
      and c = sample_pickle and b = "''S0.1''"]
    get_field_configured [where d = "set_db ''exp'' ''localhost'' '''' RedisDict_init"
      and k = "''exp''" and conn = local_connection and field = "''lr''" and w = sample_world
      and c = sample_pickle and b = "''S0.1''"]
  by (simp add: set_db_def local_connection_def sample_world_def hexists_def hget_def hset_def
      empty_store_def sample_pickle_def)

section \<open>One instance for the whole process\<close>

text \<open>
  Claim C9. The import of the module creates one \<^verbatim>\<open>RedisDict\<close> object and binds the
  name to it. A caller that reads the name, configures the object through that handle
  with \<open>set_db\<close>, and a caller that reads the name afterwards hold the same reference;
  the heap still has one object; a value set through the first handle is what \<open>get\<close>
  returns through the second. The codec is assumed to encode the value and to decode
  what it encoded.
\<close>

theorem singleton_shared:
  assumes "dumps c v = Inr b" and "loads c b = Inr v"
  shows "\<exists>d1 d2 w1.
           (let m0 = import_utils;
                h1 = RedisDict_name m0;
                m1 = mutate h1 (set_db k hst pw) m0;
                h2 = RedisDict_name m1
            in length (heap m0) = 1 \<and> length (heap m1) = 1 \<and> h1 = h2 \<and>
               deref m1 h1 = Some d1 \<and> deref m1 h2 = Some d2 \<and>
               RedisDict_set c d1 field v w = (Inr (), w1) \<and>
               RedisDict_get c d2 field w1 = (Inr (Some v), w1))"
proof -
  define d where "d = set_db k hst pw RedisDict_init"
  define w1 where "w1 = w\<lparr>server := hset k field b (server w)\<rparr>"
  have m1: "mutate 0 (set_db k hst pw) \<lparr>heap = [RedisDict_init], RedisDict_name = 0\<rparr>
              = \<lparr>heap = [d], RedisDict_name = 0\<rparr>"
    by (simp add: mutate_def d_def)
  have "RedisDict_set c d field v w = (Inr (), w1)"
    unfolding d_def w1_def by (rule RedisDict_set_configured [OF assms(1)])
  moreover have "RedisDict_get c d field w1 = (Inr (Some v), w1)"
    unfolding d_def by (simp add: RedisDict_get_configured w1_def map_of_hset assms(2))
  ultimately show ?thesis
    by (simp add: Let_def import_utils_eq m1 deref_def)
qed

theorem singleton_shared_witness:
  "dumps sample_pickle (Str ''0.1'') = Inr ''S0.1'' \<and>
   loads sample_pickle ''S0.1'' = Inr (Str ''0.1'') \<and>
   (\<exists>d1 d2 w1.
      (let m0 = import_utils;
           h1 = RedisDict_name m0;
           m1 = mutate h1 (set_db ''exp'' ''localhost'' '''') m0;
           h2 = RedisDict_name m1
       in length (heap m0) = 1 \<and> length (heap m1) = 1 \<and> h1 = h2 \<and>
          deref m1 h1 = Some d1 \<and> deref m1 h2 = Some d2 \<and>
          RedisDict_set sample_pickle d1 ''lr'' (Str ''0.1'') empty_world = (Inr (), w1) \<and>
          RedisDict_get sample_pickle d2 ''lr'' w1 = (Inr (Some (Str ''0.1'')), w1)))"
  using singleton_shared [of sample_pickle "Str ''0.1''" "''S0.1''" "''exp''" "''localhost''"
      "''''" "''lr''" empty_world]
  by (simp add: sample_pickle_def)

end
